theory Spec2Isabelle
  imports Complex_Main "HOL-Library.Word"
begin

section \<open>JavaScript values used by the page\<close>

text \<open>
  The built-ins of the platform (\<open>trim\<close>, \<open>Number\<close>, \<open>String\<close>, \<open>Math.min\<close>,
  \<open>Math.max\<close>, \<open>Number.isFinite\<close>) follow ECMAScript.

  A JavaScript string is a sequence of 16-bit code units. String constants of the source
  are written with \<open>lit\<close> where they are ASCII and with explicit code units otherwise,
  exactly as the source file holds them.
\<close>

type_synonym code_unit = "16 word"
type_synonym jsstring = "code_unit list"

definition lit :: "string \<Rightarrow> jsstring" where
  "lit s = map (\<lambda>c. of_nat (of_char c)) s"

text \<open>
  \<open>String.prototype.trim\<close> removes leading and trailing WhiteSpace and LineTerminator
  code units: TAB, LF, VT, FF, CR, SP, NBSP, the Unicode space separators, LS, PS and the
  byte order mark.
\<close>

definition is_ws :: "code_unit \<Rightarrow> bool" where
  "is_ws c = (c = 0x0009 \<or> c = 0x000A \<or> c = 0x000B \<or> c = 0x000C \<or> c = 0x000D \<or> c = 0x0020
     \<or> c = 0x00A0 \<or> c = 0x1680 \<or> (0x2000 \<le> c \<and> c \<le> 0x200A) \<or> c = 0x2028 \<or> c = 0x2029
     \<or> c = 0x202F \<or> c = 0x205F \<or> c = 0x3000 \<or> c = 0xFEFF)"

definition trim :: "jsstring \<Rightarrow> jsstring" where
  "trim s = rev (dropWhile is_ws (rev (dropWhile is_ws s)))"

text \<open>
  A Number is NaN, an infinity or a finite binary64 value, kept as the rational it
  denotes; \<open>to_binary64\<close> below rounds a rational to such a value. The two zeros are one
  value here: the page passes a number only to \<open>Number.isFinite\<close>, to \<open>Math.min\<close> and
  \<open>Math.max\<close> against 24 and 14, and to \<open>String\<close>, none of which tells them apart.
\<close>

datatype number = NaN | NegInfinity | Fin rat | PosInfinity

fun num_less :: "number \<Rightarrow> number \<Rightarrow> bool" where
  "num_less NaN _ = False"
| "num_less _ NaN = False"
| "num_less NegInfinity b = (b \<noteq> NegInfinity)"
| "num_less (Fin x) (Fin y) = (x < y)"
| "num_less (Fin x) b = (b = PosInfinity)"
| "num_less PosInfinity _ = False"

definition Math_min :: "number \<Rightarrow> number \<Rightarrow> number" where
  "Math_min a b = (if a = NaN \<or> b = NaN then NaN else if num_less b a then b else a)"

definition Math_max :: "number \<Rightarrow> number \<Rightarrow> number" where
  "Math_max a b = (if a = NaN \<or> b = NaN then NaN else if num_less a b then b else a)"

definition isFinite :: "number \<Rightarrow> bool" where
  "isFinite n = (case n of Fin _ \<Rightarrow> True | _ \<Rightarrow> False)"

text \<open>Line 18: \<^verbatim>\<open>clamp = (n, min, max) => Math.max(min, Math.min(max, n))\<close>.\<close>

definition clamp :: "number \<Rightarrow> number \<Rightarrow> number \<Rightarrow> number" where
  "clamp n mn mx = Math_max mn (Math_min mx n)"

subsection \<open>The Number value for a rational\<close>

text \<open>
  ECMAScript's \<open>the Number value for x\<close>: the binary64 value nearest to \<open>x\<close>, ties going to
  the even significand; a result of magnitude \<open>2 ^ 1024\<close> is an infinity. A binary64 value
  is a multiple of \<open>2 ^ (e - 52)\<close>, where \<open>2 ^ e\<close> is the power of two at or below it and
  \<open>e\<close> is at least -1022 (below that the values are subnormal).
\<close>

fun bit_length :: "nat \<Rightarrow> nat" where
  "bit_length n = (if n = 0 then 0 else Suc (bit_length (n div 2)))"

declare bit_length.simps [simp del]

definition pow2 :: "int \<Rightarrow> rat" where
  "pow2 e = (if 0 \<le> e then 2 ^ nat e else 1 / 2 ^ nat (- e))"

text \<open>For \<open>q > 0\<close>, the \<open>e\<close> with \<open>2 ^ e \<le> q < 2 ^ (e + 1)\<close>.\<close>

definition floor_log2 :: "rat \<Rightarrow> int" where
  "floor_log2 q =
     (if 1 \<le> q then int (bit_length (nat \<lfloor>q\<rfloor>)) - 1
      else - int (bit_length (nat (\<lceil>1 / q\<rceil> - 1))))"

definition round_half_even :: "rat \<Rightarrow> int" where
  "round_half_even r =
     (let f = \<lfloor>r\<rfloor>; d = r - of_int f
      in if d < 1 / 2 then f
         else if 1 / 2 < d then f + 1
         else if even f then f else f + 1)"

definition to_binary64 :: "rat \<Rightarrow> number" where
  "to_binary64 q =
     (let a = \<bar>q\<bar>
      in if a = 0 then Fin 0
         else if pow2 1024 \<le> a then (if q < 0 then NegInfinity else PosInfinity)
         else
           let e = max (floor_log2 a) (- 1022);
               ulp = pow2 (e - 52);
               r = of_int (round_half_even (a / ulp)) * ulp
           in if pow2 1024 \<le> r then (if q < 0 then NegInfinity else PosInfinity)
              else Fin (if q < 0 then - r else r))"

subsection \<open>Number(value): ToNumber on a string or null\<close>

text \<open>
  StringToNumber of ECMAScript: the string is trimmed; the empty string is 0; otherwise it
  must be a StrDecimalLiteral (optional sign, \<open>Infinity\<close> or digits with an optional
  fraction and exponent) or an unsigned binary, octal or hexadecimal integer literal.
  Anything else is NaN. The mathematical value of a literal is rounded to binary64, so a
  literal of magnitude from \<open>2 ^ 1024 - 2 ^ 970\<close> on is an infinity. The value is
  rounded from all its digits, as the engines do (the standard would also allow the digits
  after the twentieth to be dropped first).
\<close>

definition is_digit :: "code_unit \<Rightarrow> bool" where
  "is_digit c = (0x30 \<le> c \<and> c \<le> 0x39)"

definition is_hex_digit :: "code_unit \<Rightarrow> bool" where
  "is_hex_digit c = (is_digit c \<or> (0x61 \<le> c \<and> c \<le> 0x66) \<or> (0x41 \<le> c \<and> c \<le> 0x46))"

definition is_oct_digit :: "code_unit \<Rightarrow> bool" where
  "is_oct_digit c = (0x30 \<le> c \<and> c \<le> 0x37)"

definition is_bin_digit :: "code_unit \<Rightarrow> bool" where
  "is_bin_digit c = (c = 0x30 \<or> c = 0x31)"

definition digit_val :: "code_unit \<Rightarrow> nat" where
  "digit_val c = unat c - 48"

definition hex_val :: "code_unit \<Rightarrow> nat" where
  "hex_val c = (if is_digit c then unat c - 48
                else if 0x61 \<le> c then unat c - 87 else unat c - 55)"

definition digits_value :: "nat \<Rightarrow> (code_unit \<Rightarrow> nat) \<Rightarrow> jsstring \<Rightarrow> nat" where
  "digits_value base val cs = foldl (\<lambda>acc c. base * acc + val c) 0 cs"

definition radix_literal :: "jsstring \<Rightarrow> nat option" where
  "radix_literal t =
     (case t of
        z # p # ds \<Rightarrow>
          if z = 0x30 \<and> ds \<noteq> [] then
            (if (p = 0x78 \<or> p = 0x58) \<and> list_all is_hex_digit ds
               then Some (digits_value 16 hex_val ds)
             else if (p = 0x6F \<or> p = 0x4F) \<and> list_all is_oct_digit ds
               then Some (digits_value 8 digit_val ds)
             else if (p = 0x62 \<or> p = 0x42) \<and> list_all is_bin_digit ds
               then Some (digits_value 2 digit_val ds)
             else None)
          else None
      | _ \<Rightarrow> None)"

definition decimal_digits :: "jsstring \<Rightarrow> nat option" where
  "decimal_digits ds =
     (if ds \<noteq> [] \<and> list_all is_digit ds then Some (digits_value 10 digit_val ds) else None)"

definition signed_integer :: "jsstring \<Rightarrow> int option" where
  "signed_integer ds =
     (case ds of
        [] \<Rightarrow> None
      | s # r \<Rightarrow>
          if s = 0x2B then map_option int (decimal_digits r)
          else if s = 0x2D then map_option (\<lambda>n. - int n) (decimal_digits r)
          else map_option int (decimal_digits ds))"

definition exponent_part :: "jsstring \<Rightarrow> int option" where
  "exponent_part r =
     (case r of
        [] \<Rightarrow> Some 0
      | e # ds \<Rightarrow> if e = 0x65 \<or> e = 0x45 then signed_integer ds else None)"

definition pow10 :: "int \<Rightarrow> rat" where
  "pow10 e = (if 0 \<le> e then 10 ^ nat e else 1 / 10 ^ nat (- e))"

definition unsigned_decimal :: "jsstring \<Rightarrow> number" where
  "unsigned_decimal t =
     (if t = lit ''Infinity'' then PosInfinity
      else
        let ip = takeWhile is_digit t;
            r1 = dropWhile is_digit t;
            (fp, r2) = (case r1 of
                          [] \<Rightarrow> ([], [])
                        | d # r \<Rightarrow> if d = 0x2E then (takeWhile is_digit r, dropWhile is_digit r)
                                   else ([], r1))
        in if ip = [] \<and> fp = [] then NaN
           else (case exponent_part r2 of
                   None \<Rightarrow> NaN
                 | Some e \<Rightarrow>
                     to_binary64
                       (of_nat (digits_value 10 digit_val (ip @ fp)) * pow10 (e - int (length fp)))))"

fun negate :: "number \<Rightarrow> number" where
  "negate NaN = NaN"
| "negate NegInfinity = PosInfinity"
| "negate (Fin q) = Fin (- q)"
| "negate PosInfinity = NegInfinity"

definition str_decimal :: "jsstring \<Rightarrow> number" where
  "str_decimal t =
     (case t of
        [] \<Rightarrow> NaN
      | c # r \<Rightarrow>
          if c = 0x2B then unsigned_decimal r
          else if c = 0x2D then negate (unsigned_decimal r)
          else unsigned_decimal t)"

definition StringToNumber :: "jsstring \<Rightarrow> number" where
  "StringToNumber s =
     (let t = trim s
      in if t = [] then Fin 0
         else (case radix_literal t of
                 Some n \<Rightarrow> to_binary64 (of_nat n)
               | None \<Rightarrow> str_decimal t))"

text \<open>
  \<open>Number(v)\<close> for \<open>v : string | null\<close>, the type of \<open>localStorage.getItem\<close>:
  ToNumber(null) is 0.
\<close>

definition Number_of :: "jsstring option \<Rightarrow> number" where
  "Number_of v = (case v of None \<Rightarrow> Fin 0 | Some s \<Rightarrow> StringToNumber s)"

subsection \<open>String(value)\<close>

definition digit_char :: "nat \<Rightarrow> code_unit" where
  "digit_char d = of_nat (48 + d)"

fun digits_of :: "nat \<Rightarrow> jsstring" where
  "digits_of n = (if n < 10 then [digit_char n] else digits_of (n div 10) @ [digit_char (n mod 10)])"

declare digits_of.simps [simp del]

text \<open>
  Number::toString in radix 10. For a positive \<open>x\<close> it takes integers \<open>k \<ge> 1\<close>, \<open>s\<close> and
  \<open>n\<close> with \<open>10 ^ (k - 1) \<le> s < 10 ^ k\<close> and \<open>s * 10 ^ (n - k)\<close> rounding to \<open>x\<close>, with \<open>k\<close>
  as small as possible (17 digits always suffice) and, among those, the value nearest to
  \<open>x\<close>, an even \<open>s\<close> on a tie. It is enough to try the two multiples of \<open>10 ^ (n - k)\<close>
  around \<open>x\<close>, for the two \<open>n\<close> that the magnitude of \<open>x\<close> allows.
\<close>

text \<open>For \<open>x > 0\<close>, the \<open>e\<close> with \<open>10 ^ e \<le> x < 10 ^ (e + 1)\<close>.\<close>

definition floor_log10 :: "rat \<Rightarrow> int" where
  "floor_log10 x =
     (if 1 \<le> x then int (length (digits_of (nat \<lfloor>x\<rfloor>))) - 1
      else - int (length (digits_of (nat (\<lceil>1 / x\<rceil> - 1)))))"

definition digit_candidates :: "rat \<Rightarrow> nat \<Rightarrow> (int \<times> int) list" where
  "digit_candidates x k =
     [(s, n).
        n \<leftarrow> [floor_log10 x + 1, floor_log10 x + 2],
        s \<leftarrow> [\<lfloor>x / pow10 (n - int k)\<rfloor>, \<lfloor>x / pow10 (n - int k)\<rfloor> + 1],
        10 ^ (k - 1) \<le> s \<and> s < 10 ^ k \<and> to_binary64 (of_int s * pow10 (n - int k)) = Fin x]"

definition nearer :: "rat \<Rightarrow> nat \<Rightarrow> int \<times> int \<Rightarrow> int \<times> int \<Rightarrow> bool" where
  "nearer x k c b =
     (let dc = \<bar>of_int (fst c) * pow10 (snd c - int k) - x\<bar>;
          db = \<bar>of_int (fst b) * pow10 (snd b - int k) - x\<bar>
      in dc < db \<or> (dc = db \<and> even (fst c) \<and> odd (fst b)))"

fun shortest_digits :: "rat \<Rightarrow> nat list \<Rightarrow> (nat \<times> int \<times> int) option" where
  "shortest_digits x [] = None"
| "shortest_digits x (k # ks) =
     (case digit_candidates x k of
        [] \<Rightarrow> shortest_digits x ks
      | c # cs \<Rightarrow> Some (k, foldl (\<lambda>b c'. if nearer x k c' b then c' else b) c cs))"

definition format_digits :: "jsstring \<Rightarrow> int \<Rightarrow> jsstring" where
  "format_digits ds n =
     (let k = int (length ds)
      in if k \<le> n \<and> n \<le> 21 then ds @ replicate (nat (n - k)) 0x30
         else if 0 < n \<and> n \<le> 21 then take (nat n) ds @ 0x2E # drop (nat n) ds
         else if - 6 < n \<and> n \<le> 0 then lit ''0.'' @ replicate (nat (- n)) 0x30 @ ds
         else
           (if k = 1 then ds else hd ds # 0x2E # tl ds)
           @ lit ''e'' @ (if n - 1 < 0 then lit ''-'' else lit ''+'') @ digits_of (nat \<bar>n - 1\<bar>))"

text \<open>
  A finite value is read as the binary64 value it denotes (for such a value
  \<open>to_binary64\<close> changes nothing), for which the search for digits always succeeds.
\<close>

definition String_of_number :: "number \<Rightarrow> jsstring" where
  "String_of_number x =
     (case x of
        NaN \<Rightarrow> lit ''NaN''
      | NegInfinity \<Rightarrow> lit ''-Infinity''
      | PosInfinity \<Rightarrow> lit ''Infinity''
      | Fin q \<Rightarrow>
          (case to_binary64 q of
             Fin v \<Rightarrow>
               (if v = 0 then lit ''0''
                else (if v < 0 then lit ''-'' else [])
                  @ (case shortest_digits \<bar>v\<bar>
                            [1, 2, 3, 4, 5, 6, 7, 8, 9, 10, 11, 12, 13, 14, 15, 16, 17] of
                       None \<Rightarrow> []
                     | Some (k, s, n) \<Rightarrow> format_digits (digits_of (nat s)) n))
           | PosInfinity \<Rightarrow> lit ''Infinity''
           | NegInfinity \<Rightarrow> lit ''-Infinity''
           | NaN \<Rightarrow> lit ''NaN''))"

definition String_of_bool :: "bool \<Rightarrow> jsstring" where
  "String_of_bool b = (if b then lit ''true'' else lit ''false'')"

section \<open>The page\<close>

subsection \<open>Helpers and data (lines 13 to 46)\<close>

definition LS_eli5 :: jsstring where
  "LS_eli5 = lit ''app:eli5''"

definition LS_fontSize :: jsstring where
  "LS_fontSize = lit ''app:fontSizePx''"

record lesson =
  l_id :: jsstring
  l_title :: jsstring
  l_normal :: jsstring
  l_eli5 :: jsstring

definition lessons :: "lesson list" where
  "lessons =
     [\<lparr>l_id = lit ''lesson1'', l_title = lit ''Turning On a Computer'',
       l_normal = lit ''Press the power button on your computer case or laptop. Wait a few seconds until the screen lights up and the system loads.'',
       l_eli5 = lit ''Find the round button with a line '' @ [0x201A, 0x00F6, 0x00B0]
         @ lit ''. Press it gently. Wait a bit '' @ [0x201A, 0x00C4, 0x00EE]
         @ lit '' your computer wakes up like a person opening their eyes.''\<rparr>,
      \<lparr>l_id = lit ''lesson2'', l_title = lit ''Using a Mouse'',
       l_normal = lit ''Move the mouse on a flat surface. The pointer on the screen follows your hand movements. Click the left button to select.'',
       l_eli5 = lit ''Slide the mouse like a tiny car '' @ [0xF8FF, 0x00FC, 0x00F6, 0x00F3]
         @ lit ''. The arrow copies you! Tap the left button to pick things.''\<rparr>,
      \<lparr>l_id = lit ''lesson3'', l_title = lit ''Opening Programs'',
       l_normal = lit ''Click the Start button (Windows logo) on the taskbar. Choose a program from the list to open it.'',
       l_eli5 = lit ''Click the little window button '' @ [0xF8FF, 0x00FC, 0x2122, 0x00FC]
         @ lit '' at the corner. Pick the picture of the app you want'' @ [0x201A, 0x00C4, 0x00EE]
         @ lit ''like choosing a toy from a box!''\<rparr>]"

subsection \<open>LessonCard (lines 83 to 101)\<close>

text \<open>
  A rendered paragraph: its class tokens and its text. The card renders both variants and
  gives one the class \<open>hidden\<close> (display: none) and the other \<open>block\<close>.
\<close>

record p_element =
  className :: "string list"
  content :: jsstring

record card_view =
  heading :: jsstring
  paragraphs :: "p_element list"

definition LessonCard :: "jsstring \<Rightarrow> jsstring \<Rightarrow> jsstring \<Rightarrow> bool \<Rightarrow> card_view" where
  "LessonCard title normal eli5 showEli5 =
     \<lparr>heading = title,
      paragraphs =
        [\<lparr>className = [''leading-relaxed'', if showEli5 then ''hidden'' else ''block''],
          content = normal\<rparr>,
         \<lparr>className = [''leading-relaxed'', ''text-lg'', if showEli5 then ''block'' else ''hidden''],
          content = eli5\<rparr>]\<rparr>"

definition displayed :: "p_element \<Rightarrow> bool" where
  "displayed p = (''hidden'' \<notin> set (className p))"

definition shown_text :: "card_view \<Rightarrow> jsstring list" where
  "shown_text c = map content (filter displayed (paragraphs c))"

subsection \<open>Quiz (lines 103 to 138)\<close>

text \<open>The state is \<open>answer : string | null\<close>; a button click is \<open>setAnswer(opt.key)\<close>.\<close>

type_synonym quiz_state = "jsstring option"

definition Quiz_init :: quiz_state where
  "Quiz_init = None"

definition quiz_options :: "(jsstring \<times> jsstring) list" where
  "quiz_options =
     [(lit ''correct'', lit ''The round button with a line''),
      (lit ''mouse'', lit ''The mouse''),
      (lit ''spacebar'', lit ''The keyboard spacebar'')]"

definition select_option :: "jsstring \<Rightarrow> quiz_state \<Rightarrow> quiz_state" where
  "select_option key answer = Some key"

definition isCorrect :: "quiz_state \<Rightarrow> bool" where
  "isCorrect answer = (answer = Some (lit ''correct''))"

definition feedback_correct :: jsstring where
  "feedback_correct = [0x201A, 0x00FA, 0x00D6] @ lit '' Correct! That'' @ [0x201A, 0x00C4, 0x00F4]
     @ lit ''s the power button.''"

definition feedback_wrong :: jsstring where
  "feedback_wrong = [0x201A, 0x00F9, 0x00E5] @ lit '' Not quite. Try again!''"

text \<open>
  \<^verbatim>\<open>{answer && (<p>...</p>)}\<close>: the feedback paragraph is rendered when \<open>answer\<close> is
  truthy, that is neither null nor the empty string.
\<close>

definition feedback :: "quiz_state \<Rightarrow> jsstring option" where
  "feedback answer =
     (case answer of
        None \<Rightarrow> None
      | Some a \<Rightarrow> if a = [] then None
                 else Some (if isCorrect answer then feedback_correct else feedback_wrong))"

subsection \<open>HelpWidget (lines 140 to 219)\<close>

datatype sender = from_you | from_bot

record message =
  m_from :: sender
  m_text :: jsstring

record help_state =
  h_open :: bool
  h_messages :: "message list"
  h_text :: jsstring

definition greeting :: jsstring where
  "greeting = lit ''Hi! Need help? Ask me about any lesson.''"

definition HelpWidget_init :: help_state where
  "HelpWidget_init =
     \<lparr>h_open = False, h_messages = [\<lparr>m_from = from_bot, m_text = greeting\<rparr>], h_text = []\<rparr>"

definition canned_reply :: jsstring where
  "canned_reply = lit ''I'' @ [0x201A, 0x00C4, 0x00F4]
     @ lit ''ll explain simply: computers are tools. Which part confuses you ''
     @ [0x201A, 0x00C4, 0x00EE] @ lit '' power button, mouse, or opening apps?''"

text \<open>
  A state setter called with a function queues that updater; React runs the queued updaters
  of one event in order, each on the result of the one before.
\<close>

definition run_updaters :: "('s \<Rightarrow> 's) list \<Rightarrow> 's \<Rightarrow> 's" where
  "run_updaters us s = foldl (\<lambda>acc u. u acc) s us"

definition send :: "help_state \<Rightarrow> help_state" where
  "send st =
     (let t = trim (h_text st)
      in if t = [] then st
         else st\<lparr>h_messages :=
                    run_updaters
                      [\<lambda>m. m @ [\<lparr>m_from = from_you, m_text = t\<rparr>],
                       \<lambda>m. m @ [\<lparr>m_from = from_you, m_text = t\<rparr>,
                                \<lparr>m_from = from_bot, m_text = canned_reply\<rparr>]]
                      (h_messages st),
                  h_text := []\<rparr>)"

definition setText :: "jsstring \<Rightarrow> help_state \<Rightarrow> help_state" where
  "setText v st = st\<lparr>h_text := v\<rparr>"

definition onKeyDown :: "jsstring \<Rightarrow> help_state \<Rightarrow> help_state" where
  "onKeyDown key st = (if key = lit ''Enter'' then send st else st)"

definition toggle_help :: "help_state \<Rightarrow> help_state" where
  "toggle_help st = st\<lparr>h_open := run_updaters [\<lambda>v. \<not> v] (h_open st)\<rparr>"

subsection \<open>App (lines 221 to 322)\<close>

type_synonym storage = "jsstring \<rightharpoonup> jsstring"

definition getItem :: "storage \<Rightarrow> jsstring \<Rightarrow> jsstring option" where
  "getItem ls k = ls k"

definition setItem :: "storage \<Rightarrow> jsstring \<Rightarrow> jsstring \<Rightarrow> storage" where
  "setItem ls k v = ls(k \<mapsto> v)"

record app_state =
  eli5 :: bool
  fontSize :: number

text \<open>The initializer of \<open>fontSize\<close> (lines 223 to 226).\<close>

definition fontSize_init :: "storage \<Rightarrow> number" where
  "fontSize_init ls =
     (let saved = Number_of (getItem ls LS_fontSize)
      in if isFinite saved then clamp saved (Fin 14) (Fin 24) else Fin 16)"

definition App_init :: "storage \<Rightarrow> app_state" where
  "App_init ls = \<lparr>eli5 = False, fontSize = fontSize_init ls\<rparr>"

text \<open>
  The mount effect of lines 228 to 231: \<^verbatim>\<open>if (savedEli5) setEli5(savedEli5 === "true")\<close>.
  A string is truthy when it is not empty; null is falsy.
\<close>

definition load_eli5_effect :: "storage \<Rightarrow> app_state \<Rightarrow> app_state" where
  "load_eli5_effect ls st =
     (case getItem ls LS_eli5 of
        None \<Rightarrow> st
      | Some savedEli5 \<Rightarrow>
          if savedEli5 = [] then st else st\<lparr>eli5 := (savedEli5 = lit ''true'')\<rparr>)"

text \<open>The two persistence effects (lines 233 to 239).\<close>

definition save_eli5_effect :: "app_state \<Rightarrow> storage \<Rightarrow> storage" where
  "save_eli5_effect st ls = setItem ls LS_eli5 (String_of_bool (eli5 st))"

definition save_fontSize_effect :: "app_state \<Rightarrow> storage \<Rightarrow> storage" where
  "save_fontSize_effect st ls = setItem ls LS_fontSize (String_of_number (fontSize st))"

text \<open>
  After a re-render an effect runs again when a value of its dependency array changed
  (compared with \<open>Object.is\<close>, for which NaN equals NaN).
\<close>

definition rerender_effects :: "app_state \<Rightarrow> app_state \<Rightarrow> storage \<Rightarrow> storage" where
  "rerender_effects prev st ls =
     (let ls1 = (if eli5 st = eli5 prev then ls else save_eli5_effect st ls)
      in if fontSize st = fontSize prev then ls1 else save_fontSize_effect st ls1)"

text \<open>
  Mounting: the first render uses the initial state; then the three effects run in source
  order on that render's values, the first one reading the storage as it was found; the
  state update it queued gives a second render and its effects.
\<close>

definition mount :: "storage \<Rightarrow> app_state \<times> storage" where
  "mount ls =
     (let st0 = App_init ls;
          st1 = load_eli5_effect ls st0;
          ls1 = save_fontSize_effect st0 (save_eli5_effect st0 ls)
      in (st1, rerender_effects st0 st1 ls1))"

datatype event = ToggleEli5 | FontSlider jsstring

text \<open>
  The handlers: \<^verbatim>\<open>setEli5((v) => !v)\<close> and
  \<^verbatim>\<open>setFontSize(clamp(Number(e.target.value), 14, 24))\<close>.
\<close>

fun handle_event :: "event \<Rightarrow> app_state \<Rightarrow> app_state" where
  "handle_event ToggleEli5 st = st\<lparr>eli5 := run_updaters [\<lambda>v. \<not> v] (eli5 st)\<rparr>"
| "handle_event (FontSlider v) st = st\<lparr>fontSize := clamp (StringToNumber v) (Fin 14) (Fin 24)\<rparr>"

definition step :: "event \<Rightarrow> app_state \<times> storage \<Rightarrow> app_state \<times> storage" where
  "step ev p = (let st = handle_event ev (fst p) in (st, rerender_effects (fst p) st (snd p)))"

definition run :: "event list \<Rightarrow> app_state \<times> storage \<Rightarrow> app_state \<times> storage" where
  "run evs p = foldl (\<lambda>q ev. step ev q) p evs"

text \<open>The whole page after loading it on a given storage.\<close>

record page =
  p_app :: app_state
  p_quiz :: quiz_state
  p_help :: help_state

definition page_load :: "storage \<Rightarrow> page \<times> storage" where
  "page_load ls =
     (\<lparr>p_app = fst (mount ls), p_quiz = Quiz_init, p_help = HelpWidget_init\<rparr>, snd (mount ls))"

subsection \<open>Predicates used in the statements\<close>

text \<open>A font size within the slider's bounds.\<close>

definition in_range :: "number \<Rightarrow> bool" where
  "in_range n = (case n of Fin q \<Rightarrow> 14 \<le> q \<and> q \<le> 24 | _ \<Rightarrow> False)"

text \<open>An event whose input, if it has one, is a string that \<open>Number\<close> reads as a number.\<close>

fun numeric_input :: "event \<Rightarrow> bool" where
  "numeric_input ToggleEli5 = True"
| "numeric_input (FontSlider v) = (StringToNumber v \<noteq> NaN)"

text \<open>The storage holds the string of the current font size.\<close>

definition synced :: "app_state \<times> storage \<Rightarrow> bool" where
  "synced p = (getItem (snd p) LS_fontSize = Some (String_of_number (fontSize (fst p))))"

section \<open>Evaluation and arithmetic of the built-ins\<close>

lemma floor_rat_numeral: "\<lfloor>numeral a / numeral b :: rat\<rfloor> = numeral a div numeral b"
  using floor_divide_of_int_eq [of "numeral a" "numeral b", where ?'a = rat] by simp

lemma floor_rat_one_numeral: "\<lfloor>1 / numeral b :: rat\<rfloor> = 1 div numeral b"
  using floor_divide_of_int_eq [of 1 "numeral b", where ?'a = rat] by simp

lemma ceiling_rat_numeral: "\<lceil>numeral a / numeral b :: rat\<rceil> = - (- numeral a div numeral b)"
  using floor_divide_of_int_eq [of "- numeral a" "numeral b", where ?'a = rat]
  by (simp add: ceiling_def)

lemma ceiling_rat_one_numeral: "\<lceil>1 / numeral b :: rat\<rceil> = - (- 1 div numeral b)"
  using floor_divide_of_int_eq [of "- 1" "numeral b", where ?'a = rat]
  by (simp add: ceiling_def)

lemma bit_length_eval:
  "bit_length 0 = 0" "bit_length 1 = 1" "bit_length (Suc 0) = 1"
  "bit_length (numeral k) = Suc (bit_length (numeral k div 2))"
  by (simp_all add: bit_length.simps [of 0] bit_length.simps [of 1] bit_length.simps [of "Suc 0"]
      bit_length.simps [of "numeral k"])

lemma digits_of_eval:
  "digits_of 0 = [digit_char 0]" "digits_of 1 = [digit_char 1]" "digits_of (Suc 0) = [digit_char 1]"
  "digits_of (numeral k) =
     (if numeral k < (10::nat) then [digit_char (numeral k)]
      else digits_of (numeral k div 10) @ [digit_char (numeral k mod 10)])"
  by (simp_all add: digits_of.simps [of 0] digits_of.simps [of 1] digits_of.simps [of "Suc 0"]
      digits_of.simps [of "numeral k"])

lemmas number_eval = lit_def trim_def is_ws_def is_digit_def is_hex_digit_def is_oct_digit_def
  is_bin_digit_def digit_val_def hex_val_def digits_value_def radix_literal_def decimal_digits_def
  signed_integer_def exponent_part_def pow10_def unsigned_decimal_def str_decimal_def
  StringToNumber_def Number_of_def digit_char_def String_of_number_def String_of_bool_def
  digits_of_eval isFinite_def clamp_def Math_min_def Math_max_def
  bit_length_eval pow2_def floor_log2_def round_half_even_def to_binary64_def
  floor_log10_def digit_candidates_def nearer_def format_digits_def
  floor_rat_numeral floor_rat_one_numeral ceiling_rat_numeral ceiling_rat_one_numeral

lemma keys_distinct: "LS_eli5 \<noteq> LS_fontSize"
  by (simp add: LS_eli5_def LS_fontSize_def lit_def)

lemma clamp_in_range: "n \<noteq> NaN \<Longrightarrow> in_range (clamp n (Fin 14) (Fin 24))"
  by (cases n) (simp_all add: clamp_def Math_min_def Math_max_def in_range_def)

lemma clamp_id: "in_range n \<Longrightarrow> clamp n (Fin 14) (Fin 24) = n"
  by (cases n) (auto simp add: clamp_def Math_min_def Math_max_def in_range_def)

lemma clamp_saturates:
  "clamp (Fin q) (Fin 14) (Fin 24) = Fin (max 14 (min 24 q))"
  "clamp PosInfinity (Fin 14) (Fin 24) = Fin 24"
  "clamp NegInfinity (Fin 14) (Fin 24) = Fin 14"
  "clamp NaN (Fin 14) (Fin 24) = NaN"
  by (auto simp add: clamp_def Math_min_def Math_max_def)

lemma fontSize_init_in_range: "in_range (fontSize_init ls)"
proof (cases "Number_of (getItem ls LS_fontSize)")
  case (Fin q)
  then show ?thesis
    using clamp_in_range [of "Fin q"] by (simp add: fontSize_init_def isFinite_def)
qed (simp_all add: fontSize_init_def isFinite_def in_range_def)

subsection \<open>Rounding at work\<close>

text \<open>
  Literals beyond the binary64 range are infinities, the largest binary64 value is finite,
  \<open>15.1\<close> is read as the nearest binary64 value and printed with its shortest digits, and
  a tie such as \<open>2 ^ 53 + 1\<close> goes to the even neighbour.
\<close>

lemma Number_rounding_examples:
  "StringToNumber (lit ''1e309'') = PosInfinity"
  "StringToNumber (lit ''-1e309'') = NegInfinity"
  "StringToNumber (lit ''0x1'' @ lit ''0000000000000000000000000000000000000000000000000000000000000000''
      @ lit ''0000000000000000000000000000000000000000000000000000000000000000''
      @ lit ''0000000000000000000000000000000000000000000000000000000000000000''
      @ lit ''0000000000000000000000000000000000000000000000000000000000000000'') = PosInfinity"
  "StringToNumber (lit ''0x20000000000001'') = Fin 9007199254740992"
  "isFinite (StringToNumber (lit ''1.7976931348623157e308''))"
  "StringToNumber (lit ''1.7976931348623159e308'') = PosInfinity"
  "StringToNumber (lit ''15.1'') = Fin (8500544296661811 / 562949953421312)"
  "StringToNumber (lit ''9007199254740993'') = Fin 9007199254740992"
  "StringToNumber (lit ''1e-400'') = Fin 0"
  by (simp_all add: number_eval)

lemma String_rounding_examples:
  "String_of_number (StringToNumber (lit ''15.1'')) = lit ''15.1''"
  "String_of_number (StringToNumber (lit ''15.50'')) = lit ''15.5''"
  "String_of_number (StringToNumber (lit ''1e21'')) = lit ''1e+21''"
  "String_of_number (StringToNumber (lit ''0.0000001'')) = lit ''1e-7''"
  by (simp_all add: number_eval)

subsection \<open>Printing a slider value and reading it back\<close>

lemma slider_value_cases:
  fixes v :: int
  assumes "14 \<le> v" and "v \<le> 24"
  shows "v = 14 \<or> v = 15 \<or> v = 16 \<or> v = 17 \<or> v = 18 \<or> v = 19 \<or> v = 20 \<or> v = 21
    \<or> v = 22 \<or> v = 23 \<or> v = 24"
  using assms by arith

lemma String_of_slider_value:
  "String_of_number (Fin 14) = lit ''14''" "String_of_number (Fin 15) = lit ''15''"
  "String_of_number (Fin 16) = lit ''16''" "String_of_number (Fin 17) = lit ''17''"
  "String_of_number (Fin 18) = lit ''18''" "String_of_number (Fin 19) = lit ''19''"
  "String_of_number (Fin 20) = lit ''20''" "String_of_number (Fin 21) = lit ''21''"
  "String_of_number (Fin 22) = lit ''22''" "String_of_number (Fin 23) = lit ''23''"
  "String_of_number (Fin 24) = lit ''24''"
  by (simp_all add: number_eval)

lemma Number_of_slider_string:
  "StringToNumber (lit ''14'') = Fin 14" "StringToNumber (lit ''15'') = Fin 15"
  "StringToNumber (lit ''16'') = Fin 16" "StringToNumber (lit ''17'') = Fin 17"
  "StringToNumber (lit ''18'') = Fin 18" "StringToNumber (lit ''19'') = Fin 19"
  "StringToNumber (lit ''20'') = Fin 20" "StringToNumber (lit ''21'') = Fin 21"
  "StringToNumber (lit ''22'') = Fin 22" "StringToNumber (lit ''23'') = Fin 23"
  "StringToNumber (lit ''24'') = Fin 24"
  by (simp_all add: number_eval)

lemma slider_value_roundtrip:
  fixes v :: int
  assumes "14 \<le> v" and "v \<le> 24"
  shows "StringToNumber (String_of_number (Fin (of_int v))) = Fin (of_int v)"
  using slider_value_cases [OF assms]
  by (elim disjE) (simp_all add: String_of_slider_value Number_of_slider_string)

subsection \<open>Strings that are not numeric\<close>

text \<open>
  A string whose first code unit after trimming cannot start a numeric literal (it is not a
  digit, a sign, a dot or the \<open>I\<close> of \<open>Infinity\<close>) converts to NaN.
\<close>

lemma StringToNumber_not_numeric:
  assumes "trim s = c # r"
    and "\<not> is_digit c" and "c \<noteq> 0x2B" and "c \<noteq> 0x2D" and "c \<noteq> 0x2E" and "c \<noteq> 0x49"
  shows "StringToNumber s = NaN"
proof -
  have "radix_literal (c # r) = None"
    using assms(2) by (auto simp add: radix_literal_def is_digit_def split: list.splits)
  moreover have "c # r \<noteq> lit ''Infinity''"
    using assms(6) by (simp add: lit_def)
  then have "unsigned_decimal (c # r) = NaN"
    using assms(2,5) by (simp add: unsigned_decimal_def)
  then have "str_decimal (c # r) = NaN"
    using assms(3,4) by (simp add: str_decimal_def)
  ultimately show ?thesis
    by (simp add: StringToNumber_def assms(1))
qed

section \<open>The font size and the storage\<close>

lemma load_eli5_effect_fontSize: "fontSize (load_eli5_effect ls st) = fontSize st"
  by (simp add: load_eli5_effect_def split: option.splits)

lemma rerender_effects_fontSize_key:
  "getItem (rerender_effects prev st ls) LS_fontSize =
     (if fontSize st = fontSize prev then getItem ls LS_fontSize
      else Some (String_of_number (fontSize st)))"
  using keys_distinct
  by (simp add: rerender_effects_def save_eli5_effect_def save_fontSize_effect_def
      getItem_def setItem_def Let_def)

lemma mount_fontSize: "fontSize (fst (mount ls)) = fontSize_init ls"
  by (simp add: mount_def Let_def load_eli5_effect_fontSize App_init_def)

lemma save_fontSize_effect_key:
  "getItem (save_fontSize_effect st ls) LS_fontSize = Some (String_of_number (fontSize st))"
  by (simp add: save_fontSize_effect_def getItem_def setItem_def)

lemma synced_mount: "synced (mount ls)"
  by (simp add: synced_def mount_def Let_def rerender_effects_fontSize_key
      load_eli5_effect_fontSize save_fontSize_effect_key)

lemma synced_step: "synced p \<Longrightarrow> synced (step ev p)"
  by (simp add: synced_def step_def Let_def rerender_effects_fontSize_key)

lemma synced_run: "synced p \<Longrightarrow> synced (run evs p)"
  unfolding run_def by (induction evs arbitrary: p) (simp_all add: synced_step)

lemma in_range_step:
  "numeric_input ev \<Longrightarrow> in_range (fontSize (fst p)) \<Longrightarrow> in_range (fontSize (fst (step ev p)))"
  by (cases ev) (simp_all add: step_def Let_def clamp_in_range)

lemma in_range_run:
  "list_all numeric_input evs \<Longrightarrow> in_range (fontSize (fst p)) \<Longrightarrow>
     in_range (fontSize (fst (run evs p)))"
  unfolding run_def by (induction evs arbitrary: p) (simp_all add: in_range_step)

section \<open>The help widget\<close>

lemma send_nonblank:
  assumes "trim (h_text st) \<noteq> []"
  shows "h_messages (send st) =
           h_messages st @ [\<lparr>m_from = from_you, m_text = trim (h_text st)\<rparr>,
                            \<lparr>m_from = from_you, m_text = trim (h_text st)\<rparr>,
                            \<lparr>m_from = from_bot, m_text = canned_reply\<rparr>]"
    and "h_text (send st) = []" and "h_open (send st) = h_open st"
  using assms by (simp_all add: send_def Let_def run_updaters_def)

text \<open>
  Claim C1. Sending a text whose trimmed form is not empty should append two entries, the
  user's message and then the fixed reply. The two queued updaters of \<open>send\<close> both append
  the user's message, so the log grows by three entries: at the input \<open>hi\<close> on the initial
  widget the log becomes the greeting, \<open>hi\<close>, \<open>hi\<close>, the reply.
\<close>

theorem send_appends_user_message_twice:
  "h_messages (send (HelpWidget_init\<lparr>h_text := lit ''hi''\<rparr>)) =
     [\<lparr>m_from = from_bot, m_text = greeting\<rparr>,
      \<lparr>m_from = from_you, m_text = lit ''hi''\<rparr>,
      \<lparr>m_from = from_you, m_text = lit ''hi''\<rparr>,
      \<lparr>m_from = from_bot, m_text = canned_reply\<rparr>]
   \<and> length (h_messages (send (HelpWidget_init\<lparr>h_text := lit ''hi''\<rparr>))) =
       length (h_messages (HelpWidget_init\<lparr>h_text := lit ''hi''\<rparr>)) + 3"
proof -
  have t: "trim (lit ''hi'') = lit ''hi''"
    by (simp add: lit_def trim_def is_ws_def)
  have "trim (h_text (HelpWidget_init\<lparr>h_text := lit ''hi''\<rparr>)) \<noteq> []"
    by (simp add: t) (simp add: lit_def)
  from send_nonblank(1) [OF this] show ?thesis
    by (simp add: t HelpWidget_init_def)
qed

text \<open>
  Claim C8. When the trimmed input is empty, \<open>send\<close> returns at once: the widget state,
  its message log included, is unchanged, whether sent by the button or by the Enter key.
\<close>

theorem send_blank_is_noop:
  assumes "trim (h_text st) = []"
  shows "send st = st \<and> h_messages (send st) = h_messages st \<and> onKeyDown (lit ''Enter'') st = st"
  using assms by (simp add: send_def onKeyDown_def)

theorem send_blank_is_noop_witness:
  "trim (h_text (HelpWidget_init\<lparr>h_text := lit ''  ''\<rparr>)) = []
   \<and> send (HelpWidget_init\<lparr>h_text := lit ''  ''\<rparr>) = HelpWidget_init\<lparr>h_text := lit ''  ''\<rparr>"
proof -
  have h: "trim (h_text (HelpWidget_init\<lparr>h_text := lit ''  ''\<rparr>)) = []"
    by (simp add: lit_def trim_def is_ws_def)
  show ?thesis
    using h send_blank_is_noop [OF h] by simp
qed

text \<open>
  Claim C9. A toggle flips the open flag and changes nothing else, whatever the state: so
  three toggles from a collapsed panel (open, close, open) leave it expanded, with the
  message log and the rest of the widget state as they were.
\<close>

theorem toggle_three_times:
  "toggle_help st = st\<lparr>h_open := \<not> h_open st\<rparr>
   \<and> h_messages (toggle_help st) = h_messages st
   \<and> h_text (toggle_help st) = h_text st
   \<and> toggle_help (toggle_help (toggle_help (st\<lparr>h_open := False\<rparr>))) = st\<lparr>h_open := True\<rparr>
   \<and> h_open (toggle_help (toggle_help (toggle_help st))) = (\<not> h_open st)
   \<and> h_messages (toggle_help (toggle_help (toggle_help st))) = h_messages st
   \<and> h_text (toggle_help (toggle_help (toggle_help st))) = h_text st"
  by (simp add: toggle_help_def run_updaters_def)

theorem toggle_three_times_witness:
  "\<not> h_open HelpWidget_init
   \<and> h_open (toggle_help (toggle_help (toggle_help HelpWidget_init)))
   \<and> h_messages (toggle_help (toggle_help (toggle_help HelpWidget_init)))
       = h_messages HelpWidget_init"
proof -
  have h: "\<not> h_open HelpWidget_init"
    by (simp add: HelpWidget_init_def)
  from toggle_three_times [of HelpWidget_init]
  have "h_open (toggle_help (toggle_help (toggle_help HelpWidget_init))) = (\<not> h_open HelpWidget_init)"
    and "h_messages (toggle_help (toggle_help (toggle_help HelpWidget_init)))
          = h_messages HelpWidget_init"
    by blast+
  with h show ?thesis
    by simp
qed

section \<open>Lesson cards and the quiz\<close>

text \<open>
  Claim C6. A lesson card renders both variants; exactly one of them is displayed, the
  simplified text when the flag is set and the normal text otherwise.
\<close>

theorem lesson_card_shows_exactly_one:
  "map content (paragraphs (LessonCard title normal simple showEli5)) = [normal, simple]
   \<and> map displayed (paragraphs (LessonCard title normal simple showEli5)) = [\<not> showEli5, showEli5]
   \<and> shown_text (LessonCard title normal simple showEli5) = [if showEli5 then simple else normal]"
  by (simp add: LessonCard_def displayed_def shown_text_def)

text \<open>
  Claim C7. The option \<open>correct\<close> gives the positive feedback, \<open>mouse\<close> and \<open>spacebar\<close>
  the negative one, whatever was selected before: a selection replaces the previous one.
\<close>

theorem quiz_feedback_follows_last_selection:
  "feedback (select_option (lit ''correct'') prev) = Some feedback_correct
   \<and> feedback (select_option (lit ''mouse'') prev) = Some feedback_wrong
   \<and> feedback (select_option (lit ''spacebar'') prev) = Some feedback_wrong
   \<and> feedback_correct \<noteq> feedback_wrong
   \<and> select_option k (select_option k' prev) = select_option k Quiz_init
   \<and> map fst quiz_options = [lit ''correct'', lit ''mouse'', lit ''spacebar'']"
  by (simp add: feedback_def select_option_def isCorrect_def quiz_options_def
      feedback_correct_def feedback_wrong_def lit_def)

section \<open>Loading the preferences\<close>

text \<open>
  Claim C2, as stated: a missing value, or one that is not a decimal integer string, loads
  as 16. It fails: with no stored value \<open>Number(null)\<close> is 0, which is finite and clamps to
  14; and the string \<open>15.5\<close> is a finite number and loads as 15.5.
\<close>

theorem fontSize_init_missing_or_fraction:
  "fontSize_init Map.empty = Fin 14
   \<and> fontSize_init (Map.empty(LS_fontSize \<mapsto> lit ''15.5'')) = Fin (31 / 2)"
  by (simp add: fontSize_init_def getItem_def number_eval)

text \<open>
  Claim C2, amended: a stored string that \<open>Number\<close> does not read as a finite number (it
  gives NaN, as for \<open>abc\<close>, or an infinity, as for \<open>-Infinity\<close> and for \<open>1e309\<close>,
  which is beyond the binary64 range) loads as the default 16.
\<close>

theorem fontSize_init_default_when_not_finite:
  assumes "getItem ls LS_fontSize = Some s" and "\<not> isFinite (StringToNumber s)"
  shows "fontSize_init ls = Fin 16"
  using assms by (simp add: fontSize_init_def Number_of_def)

theorem fontSize_init_default_when_not_finite_witness:
  "\<not> isFinite (StringToNumber (lit ''abc''))
   \<and> fontSize_init (Map.empty(LS_fontSize \<mapsto> lit ''abc'')) = Fin 16
   \<and> \<not> isFinite (StringToNumber (lit ''1e309''))
   \<and> fontSize_init (Map.empty(LS_fontSize \<mapsto> lit ''1e309'')) = Fin 16
   \<and> \<not> isFinite (StringToNumber (lit ''-1e309''))
   \<and> fontSize_init (Map.empty(LS_fontSize \<mapsto> lit ''-1e309'')) = Fin 16
   \<and> \<not> isFinite (StringToNumber (lit ''-Infinity''))
   \<and> fontSize_init (Map.empty(LS_fontSize \<mapsto> lit ''-Infinity'')) = Fin 16"
proof -
  have g: "getItem (Map.empty(LS_fontSize \<mapsto> s)) LS_fontSize = Some s" for s
    by (simp add: getItem_def)
  have a: "\<not> isFinite (StringToNumber (lit ''abc''))"
    by (simp add: number_eval)
  have b: "\<not> isFinite (StringToNumber (lit ''1e309''))"
    by (simp add: number_eval)
  have c: "\<not> isFinite (StringToNumber (lit ''-Infinity''))"
    by (simp add: number_eval)
  have d: "\<not> isFinite (StringToNumber (lit ''-1e309''))"
    by (simp add: number_eval)
  show ?thesis
    using a b c d
      fontSize_init_default_when_not_finite [OF g a]
      fontSize_init_default_when_not_finite [OF g b]
      fontSize_init_default_when_not_finite [OF g c]
      fontSize_init_default_when_not_finite [OF g d]
    by simp
qed

text \<open>
  Claim C3. A fresh load on an empty storage gives simplified mode off, the quiz
  unanswered, the help panel collapsed and the log holding the greeting alone; the font
  size, however, is 14 and not 16, since \<open>Number(null)\<close> is 0.
\<close>

theorem fresh_load_state:
  "fst (page_load Map.empty) =
     \<lparr>p_app = \<lparr>eli5 = False, fontSize = Fin 14\<rparr>,
      p_quiz = None,
      p_help = \<lparr>h_open = False,
                h_messages = [\<lparr>m_from = from_bot, m_text = greeting\<rparr>],
                h_text = []\<rparr>\<rparr>"
  by (simp add: page_load_def mount_def Let_def App_init_def load_eli5_effect_def
      Quiz_init_def HelpWidget_init_def fontSize_init_def getItem_def number_eval)

text \<open>
  Claim C10. After loading, simplified mode is on exactly when the value stored under
  \<open>app:eli5\<close> is the string \<open>true\<close>; any other string, the empty string and a missing
  value leave it off.
\<close>

theorem eli5_loaded_iff_stored_true:
  "eli5 (p_app (fst (page_load ls))) = (getItem ls LS_eli5 = Some (lit ''true''))"
  by (simp add: page_load_def mount_def Let_def App_init_def load_eli5_effect_def lit_def
      split: option.splits)

section \<open>The font size\<close>

text \<open>
  Claim C4. For an integer \<open>v\<close> from 14 to 24, moving the slider to \<open>v\<close> in any state the
  page can reach sets the font size to \<open>v\<close> and leaves the decimal string of \<open>v\<close> under the
  font-size key; loading the page on that storage restores \<open>v\<close>.
\<close>

theorem fontSize_store_then_load:
  fixes v :: int
  assumes "14 \<le> v" and "v \<le> 24"
  shows "let p = step (FontSlider (String_of_number (Fin (of_int v)))) (run evs (mount ls))
         in fontSize (fst p) = Fin (of_int v)
          \<and> getItem (snd p) LS_fontSize = Some (String_of_number (Fin (of_int v)))
          \<and> fontSize_init (snd p) = Fin (of_int v)
          \<and> fontSize (p_app (fst (page_load (snd p)))) = Fin (of_int v)"
proof -
  define x where "x = Fin (of_int v)"
  define p where "p = step (FontSlider (String_of_number x)) (run evs (mount ls))"
  have r: "in_range x"
    using assms by (simp add: x_def in_range_def)
  have n: "StringToNumber (String_of_number x) = x"
    unfolding x_def by (rule slider_value_roundtrip [OF assms])
  have f: "fontSize (fst p) = x"
    by (simp add: p_def step_def Let_def n clamp_id [OF r])
  have "synced p"
    unfolding p_def by (intro synced_step synced_run synced_mount)
  then have g: "getItem (snd p) LS_fontSize = Some (String_of_number x)"
    by (simp add: synced_def f)
  have i: "fontSize_init (snd p) = x"
    using r by (simp add: fontSize_init_def g Number_of_def n clamp_id) (simp add: x_def isFinite_def)
  have "fontSize (p_app (fst (page_load (snd p)))) = x"
    by (simp add: page_load_def mount_fontSize i)
  with f g i show ?thesis
    unfolding Let_def p_def [symmetric] x_def [symmetric] by simp
qed

theorem fontSize_store_then_load_witness:
  "(14::int) \<le> 18 \<and> (18::int) \<le> 24
   \<and> (let p = step (FontSlider (String_of_number (Fin 18))) (run [ToggleEli5] (mount Map.empty))
      in fontSize (fst p) = Fin 18
       \<and> getItem (snd p) LS_fontSize = Some (String_of_number (Fin 18))
       \<and> fontSize_init (snd p) = Fin 18
       \<and> fontSize (p_app (fst (page_load (snd p)))) = Fin 18)"
  using fontSize_store_then_load [of 18 "[ToggleEli5]" Map.empty] by simp

text \<open>
  Claim C5. The font size is within 14 and 24 whenever it is produced: the value loaded from
  any storage is, and so is the value after any sequence of events whose slider inputs are
  numeric; the string kept under the font-size key is always the string of that value.
\<close>

theorem fontSize_always_clamped:
  assumes "list_all numeric_input evs"
  shows "in_range (fontSize_init ls)
    \<and> in_range (fontSize (fst (run evs (mount ls))))
    \<and> getItem (snd (run evs (mount ls))) LS_fontSize
        = Some (String_of_number (fontSize (fst (run evs (mount ls)))))"
proof -
  have "in_range (fontSize (fst (mount ls)))"
    by (simp add: mount_fontSize fontSize_init_in_range)
  then have "in_range (fontSize (fst (run evs (mount ls))))"
    using assms by (rule in_range_run [rotated])
  moreover have "synced (run evs (mount ls))"
    by (rule synced_run [OF synced_mount])
  ultimately show ?thesis
    by (simp add: synced_def fontSize_init_in_range)
qed

theorem fontSize_always_clamped_witness:
  "list_all numeric_input [FontSlider (lit ''30''), ToggleEli5, FontSlider (lit ''-5'')]
   \<and> in_range (fontSize (fst (run [FontSlider (lit ''30''), ToggleEli5, FontSlider (lit ''-5'')]
        (mount Map.empty))))"
proof -
  have h: "list_all numeric_input [FontSlider (lit ''30''), ToggleEli5, FontSlider (lit ''-5'')]"
    by (simp add: number_eval)
  show ?thesis
    using h fontSize_always_clamped [OF h, of Map.empty] by simp
qed

text \<open>
  A slider input that is not numeric is outside the statement above: \<open>Number\<close> gives NaN,
  which \<open>Math.min\<close> and \<open>Math.max\<close> hand on.
\<close>

lemma slider_non_numeric_input:
  "fontSize (handle_event (FontSlider (lit ''abc'')) st) = NaN"
  by (simp add: number_eval)

end
